theory Spec2Isabelle
  imports Main "HOL-Library.Word" "HOL-Library.Signed_Division"
begin

unbundle bit_operations_syntax

section \<open>Driver for the LIDAR-Lite v2 ranging sensor (lidar.go)\<close>

text \<open>
  The driver talks to the sensor through an injected register bus (\<open>i2c.Bus\<close>) and reads
  the clock of package \<open>time\<close>. Both are outside the driver, so every driver function
  takes them as an environment over an arbitrary world state \<open>'w\<close> and threads the world
  through its calls, in the order of the source. Go's \<open>error\<close> results are
  \<open>error option\<close> (\<open>None\<close> is \<open>nil\<close>); a Go pair \<open>(value, err)\<close> stays a pair.
\<close>

subsection \<open>Machine types\<close>

type_synonym byte = "8 word"
type_synonym uint16 = "16 word"
type_synonym int16 = "16 word"

text \<open>\<open>time.Duration\<close> is an \<open>int64\<close> count of nanoseconds: an \<open>int\<close> here, with the
  wrap-around of \<open>int64\<close> arithmetic written out by \<open>int64\<close>. A clock reading
  (\<open>time.Time\<close>) is a count of nanoseconds as well.\<close>

type_synonym Duration = int
type_synonym Time = int

definition int64 :: "int \<Rightarrow> int" where
  "int64 x = signed_take_bit 63 x"

definition maxDuration :: Duration where
  "maxDuration = 2 ^ 63 - 1"

definition minDuration :: Duration where
  "minDuration = - (2 ^ 63)"

definition Millisecond :: Duration where
  "Millisecond = 1000000"

definition Second :: Duration where
  "Second = 1000 * Millisecond"

subsection \<open>Errors\<close>

text \<open>\<open>BusError\<close> stands for whatever error value the bus layer hands out,
  \<open>ErrorsNew\<close> for \<open>errors.New(msg)\<close>, \<open>NotAchievable\<close> for the \<open>fmt.Errorf\<close> of
  \<open>setAcquisitionInterval\<close> (it carries the interval it formats), and \<open>HealthError\<close>
  for the struct of that name.\<close>

datatype error =
    BusError string
  | ErrorsNew string
  | NotAchievable Duration
  | HealthError (healthFlags: byte)

definition UnhealthyReference :: byte where
  "UnhealthyReference = push_bit 1 1"

definition UnhealthyTransmitPower :: byte where
  "UnhealthyTransmitPower = push_bit 2 1"

definition UnhealthyDC :: byte where
  "UnhealthyDC = push_bit 3 1"

definition GetHealthFlags :: "error \<Rightarrow> byte" where
  "GetHealthFlags e = healthFlags e"

text \<open>\<open>(e *HealthError) Error()\<close>, as a function of the flags byte of the struct.\<close>

definition HealthError_Error :: "byte \<Rightarrow> string" where
  "HealthError_Error flags =
     (if flags AND UnhealthyReference \<noteq> 0 then ''LIDAR unhealthy: reference signal failure''
      else if flags AND UnhealthyTransmitPower \<noteq> 0 then ''LIDAR unhealthy: transmit power failure''
      else if flags AND UnhealthyDC \<noteq> 0 then ''LIDAR unhealthy: DC (preamplifier) failure''
      else ''LIDAR unhealthy, measurement result may be inaccurate'')"

text \<open>The type assertion \<open>err.(*HealthError)\<close>.\<close>

fun isHealthError :: "error \<Rightarrow> bool" where
  "isHealthError (HealthError f) = True"
| "isHealthError _ = False"

subsection \<open>The environment: bus and clock\<close>

record 'w env =
  bus_ReadByteFromReg :: "byte \<Rightarrow> byte \<Rightarrow> 'w \<Rightarrow> (byte \<times> error option) \<times> 'w"
  bus_ReadWordFromReg :: "byte \<Rightarrow> byte \<Rightarrow> 'w \<Rightarrow> (uint16 \<times> error option) \<times> 'w"
  bus_WriteByteToReg :: "byte \<Rightarrow> byte \<Rightarrow> byte \<Rightarrow> 'w \<Rightarrow> error option \<times> 'w"
  time_Now :: "'w \<Rightarrow> Time \<times> 'w"
  time_Sleep :: "Duration \<Rightarrow> 'w \<Rightarrow> 'w"

text \<open>\<open>time.Since(t)\<close> is \<open>time.Now().Sub(t)\<close>; \<open>Sub\<close> saturates at the ends of
  \<open>int64\<close>.\<close>

definition time_Since :: "'w env \<Rightarrow> Time \<Rightarrow> 'w \<Rightarrow> Duration \<times> 'w" where
  "time_Since env t w =
     (case time_Now env w of (n, w') \<Rightarrow> (max minDuration (min maxDuration (n - t)), w'))"

subsection \<open>The device handle and its constants\<close>

record Lidar =
  address :: byte
  WaitTimeout :: Duration

definition DefaultAddress :: byte where
  "DefaultAddress = 0x62"

definition customAcquisitionInterval :: byte where
  "customAcquisitionInterval = push_bit 5 1"

definition velocityModeEnabled :: byte where
  "velocityModeEnabled = push_bit 7 1"

definition modeControlRegister :: byte where
  "modeControlRegister = 0x04"

definition defaultIntervalValue :: int where
  "defaultIntervalValue = 0xc8"

definition minIntervalValue :: int where
  "minIntervalValue = 0x02"

definition maxIntervalValue :: int where
  "maxIntervalValue = 0xff"

definition DefaultAcquisitionInterval :: Duration where
  "DefaultAcquisitionInterval = drop_bit 1 defaultIntervalValue * Millisecond"

definition MinAcquisitionInterval :: Duration where
  "MinAcquisitionInterval = drop_bit 1 minIntervalValue * Millisecond"

definition MaxAcquisitionInterval :: Duration where
  "MaxAcquisitionInterval = drop_bit 1 maxIntervalValue * Millisecond"

definition InfiniteAcquisitions :: byte where
  "InfiniteAcquisitions = 0xff"

text \<open>The bits of the status register, \<open>1 << iota\<close> for \<open>iota\<close> from 0 to 7.\<close>

definition Busy :: byte where "Busy = push_bit 0 1"
definition ReferenceOverflow :: byte where "ReferenceOverflow = push_bit 1 1"
definition SignalOverflow :: byte where "SignalOverflow = push_bit 2 1"
definition SignalNotDetected :: byte where "SignalNotDetected = push_bit 3 1"
definition SecondReturn :: byte where "SecondReturn = push_bit 4 1"
definition Healthy :: byte where "Healthy = push_bit 5 1"
definition ErrorDetected :: byte where "ErrorDetected = push_bit 6 1"
definition EyeSafetyActivated :: byte where "EyeSafetyActivated = push_bit 7 1"

definition NewLidar :: "byte \<Rightarrow> Lidar" where
  "NewLidar addr = \<lparr>address = addr, WaitTimeout = 2 * Second\<rparr>"

subsection \<open>Waiting for the device\<close>

definition GetStatus :: "'w env \<Rightarrow> Lidar \<Rightarrow> 'w \<Rightarrow> (byte \<times> error option) \<times> 'w" where
  "GetStatus env ls w = bus_ReadByteFromReg env (address ls) 0x01 w"

definition errTimedOut :: error where
  "errTimedOut = ErrorsNew ''Timed out waiting for non-Busy LIDAR status''"

text \<open>The \<open>for\<close> loop of \<open>waitReadyStatus\<close> with the statements after it. The loop
  state is the backoff and the world; the loop may run forever (a clock that stands
  still), which is the value \<open>None\<close>.\<close>

partial_function (option) waitReadyStatus_loop ::
  "'w env \<Rightarrow> Lidar \<Rightarrow> Time \<Rightarrow> Duration \<Rightarrow> 'w \<Rightarrow> ((byte \<times> error option) \<times> 'w) option"
where
  "waitReadyStatus_loop env ls startedAt backoff w =
     (case GetStatus env ls w of ((status, err), w1) \<Rightarrow>
        if err = None \<and> status AND Busy = 0 then Some ((status, err), w1)
        else (case time_Since env startedAt w1 of (elapsed, w2) \<Rightarrow>
          if elapsed \<ge> WaitTimeout ls
          then Some ((status, if err = None then Some errTimedOut else err), w2)
          else waitReadyStatus_loop env ls startedAt (int64 (backoff * 2))
                 (time_Sleep env backoff w2)))"

declare waitReadyStatus_loop.simps [code]

definition waitReadyStatus ::
  "'w env \<Rightarrow> Lidar \<Rightarrow> 'w \<Rightarrow> ((byte \<times> error option) \<times> 'w) option" where
  "waitReadyStatus env ls w =
     (case time_Now env w of (startedAt, w0) \<Rightarrow>
        waitReadyStatus_loop env ls startedAt Millisecond w0)"

definition waitReadyForCommand :: "'w env \<Rightarrow> Lidar \<Rightarrow> 'w \<Rightarrow> (error option \<times> 'w) option" where
  "waitReadyForCommand env ls w =
     (case waitReadyStatus env ls w of None \<Rightarrow> None
      | Some ((status, err), w1) \<Rightarrow> Some (err, w1))"

definition errErrorDetected :: error where
  "errErrorDetected = ErrorsNew ''LIDAR has detected an error during measurement''"

definition errSignalNotDetected :: error where
  "errSignalNotDetected = ErrorsNew ''LIDAR has not received it's signal''"

text \<open>The three checks of \<open>waitAcquisitionReady\<close> on a status that was read without
  error: each of them overwrites \<open>err\<close>. The read of the health register 0x48 keeps the
  byte and drops the error of the read.\<close>

definition classifyStatus :: "'w env \<Rightarrow> Lidar \<Rightarrow> byte \<Rightarrow> 'w \<Rightarrow> error option \<times> 'w" where
  "classifyStatus env ls status w =
     (let (err1, w1) =
            (if status AND Healthy = 0
             then (case bus_ReadByteFromReg env (address ls) 0x48 w of
                     ((flags, _), w') \<Rightarrow> (Some (HealthError flags), w'))
             else (None, w));
          err2 = (if status AND ErrorDetected \<noteq> 0 then Some errErrorDetected else err1);
          err3 = (if status AND SignalNotDetected \<noteq> 0 then Some errSignalNotDetected else err2)
      in (err3, w1))"

definition waitAcquisitionReady :: "'w env \<Rightarrow> Lidar \<Rightarrow> 'w \<Rightarrow> (error option \<times> 'w) option" where
  "waitAcquisitionReady env ls w =
     (case waitReadyStatus env ls w of None \<Rightarrow> None
      | Some ((status, err), w1) \<Rightarrow>
          if err = None then Some (classifyStatus env ls status w1) else Some (err, w1))"

subsection \<open>Reset, sleep and wake\<close>

definition Wake :: "'w env \<Rightarrow> Lidar \<Rightarrow> 'w \<Rightarrow> error option \<times> 'w" where
  "Wake env ls w =
     (case GetStatus env ls w of (_, w1) \<Rightarrow> bus_WriteByteToReg env (address ls) 0x65 0x00 w1)"

definition Sleep :: "'w env \<Rightarrow> Lidar \<Rightarrow> 'w \<Rightarrow> error option \<times> 'w" where
  "Sleep env ls w = bus_WriteByteToReg env (address ls) 0x65 0x0f w"

definition Reset :: "'w env \<Rightarrow> Lidar \<Rightarrow> 'w \<Rightarrow> (error option \<times> 'w) option" where
  "Reset env ls w =
     (case Wake env ls w of
        (Some e, w1) \<Rightarrow> Some (Some e, w1)
      | (None, w1) \<Rightarrow>
          (case bus_WriteByteToReg env (address ls) 0x00 0x00 w1 of
             (Some e, w2) \<Rightarrow> Some (Some e, w2)
           | (None, w2) \<Rightarrow> waitReadyForCommand env ls w2))"

subsection \<open>Mode configuration\<close>

text \<open>\<open>interval.Nanoseconds() * 2 / 1000000\<close> in \<open>int64\<close>: the product wraps, the
  quotient truncates towards zero.\<close>

definition translatedInterval :: "Duration \<Rightarrow> int" where
  "translatedInterval interval = int64 (interval * 2) sdiv 1000000"

definition setAcquisitionInterval ::
  "'w env \<Rightarrow> Lidar \<Rightarrow> Duration \<Rightarrow> bool \<Rightarrow> 'w \<Rightarrow> error option \<times> 'w" where
  "setAcquisitionInterval env ls interval velocity w =
     (case bus_ReadByteFromReg env (address ls) modeControlRegister w of
        ((_, Some e), w1) \<Rightarrow> (Some e, w1)
      | ((control0, None), w1) \<Rightarrow>
          (let control = (if velocity then control0 OR velocityModeEnabled
                          else control0 AND NOT velocityModeEnabled)
           in if interval = DefaultAcquisitionInterval
              then bus_WriteByteToReg env (address ls) modeControlRegister
                     (control AND NOT customAcquisitionInterval) w1
              else if translatedInterval interval < minIntervalValue
                      \<or> translatedInterval interval > maxIntervalValue
              then (Some (NotAchievable interval), w1)
              else (case bus_WriteByteToReg env (address ls) 0x45
                           (word_of_int (translatedInterval interval)) w1 of
                      (Some e, w2) \<Rightarrow> (Some e, w2)
                    | (None, w2) \<Rightarrow>
                        bus_WriteByteToReg env (address ls) modeControlRegister
                          (control OR customAcquisitionInterval) w2)))"

definition setAcquisitionCount :: "'w env \<Rightarrow> Lidar \<Rightarrow> byte \<Rightarrow> 'w \<Rightarrow> error option \<times> 'w" where
  "setAcquisitionCount env ls count w = bus_WriteByteToReg env (address ls) 0x11 count w"

definition SetDistanceOnlyMode :: "'w env \<Rightarrow> Lidar \<Rightarrow> 'w \<Rightarrow> error option \<times> 'w" where
  "SetDistanceOnlyMode env ls w =
     (case setAcquisitionInterval env ls DefaultAcquisitionInterval False w of
        (Some e, w1) \<Rightarrow> (Some e, w1)
      | (None, w1) \<Rightarrow> setAcquisitionCount env ls 0 w1)"

definition SetContinuousMode ::
  "'w env \<Rightarrow> Lidar \<Rightarrow> byte \<Rightarrow> Duration \<Rightarrow> 'w \<Rightarrow> error option \<times> 'w" where
  "SetContinuousMode env ls total_count interval w =
     (case setAcquisitionInterval env ls interval False w of
        (Some e, w1) \<Rightarrow> (Some e, w1)
      | (None, w1) \<Rightarrow> setAcquisitionCount env ls total_count w1)"

definition SetDistanceAndVelocityMode ::
  "'w env \<Rightarrow> Lidar \<Rightarrow> Duration \<Rightarrow> 'w \<Rightarrow> error option \<times> 'w" where
  "SetDistanceAndVelocityMode env ls window w =
     (case setAcquisitionInterval env ls window True w of
        (Some e, w1) \<Rightarrow> (Some e, w1)
      | (None, w1) \<Rightarrow> setAcquisitionCount env ls 0 w1)"

subsection \<open>Acquisition and reading\<close>

definition Acquire :: "'w env \<Rightarrow> Lidar \<Rightarrow> bool \<Rightarrow> 'w \<Rightarrow> (error option \<times> 'w) option" where
  "Acquire env ls stablizePreamp w =
     (case waitReadyForCommand env ls w of None \<Rightarrow> None
      | Some (Some e, w1) \<Rightarrow> Some (Some e, w1)
      | Some (None, w1) \<Rightarrow>
          Some (bus_WriteByteToReg env (address ls) 0x00
                  (if stablizePreamp then 0x04 else 0x03) w1))"

definition ReadDistance ::
  "'w env \<Rightarrow> Lidar \<Rightarrow> 'w \<Rightarrow> ((uint16 \<times> error option) \<times> 'w) option" where
  "ReadDistance env ls w =
     (case waitAcquisitionReady env ls w of None \<Rightarrow> None
      | Some (healthError, w1) \<Rightarrow>
          if healthError \<noteq> None \<and> \<not> isHealthError (the healthError)
          then Some ((0, healthError), w1)
          else (case bus_ReadWordFromReg env (address ls) 0x8f w1 of
                  ((value, Some e), w2) \<Rightarrow> Some ((0, Some e), w2)
                | ((value, None), w2) \<Rightarrow> Some ((value, healthError), w2)))"

text \<open>One iteration of the \<open>for\<close> loop of \<open>GetDistance\<close>: \<open>Acquire(true)\<close> and, when
  that succeeds, \<open>ReadDistance()\<close>. The named result \<open>value\<close> keeps what the last
  \<open>ReadDistance\<close> assigned to it, so it is part of the loop state.\<close>

definition GetDistance_attempt ::
  "'w env \<Rightarrow> Lidar \<Rightarrow> uint16 \<Rightarrow> 'w \<Rightarrow> ((uint16 \<times> error option) \<times> 'w) option" where
  "GetDistance_attempt env ls value0 w =
     (case Acquire env ls True w of None \<Rightarrow> None
      | Some (Some e, w1) \<Rightarrow> Some ((value0, Some e), w1)
      | Some (None, w1) \<Rightarrow> ReadDistance env ls w1)"

text \<open>The loop itself, with the \<open>return\<close> that follows it.\<close>

partial_function (option) GetDistance_loop ::
  "'w env \<Rightarrow> Lidar \<Rightarrow> Time \<Rightarrow> uint16 \<Rightarrow> 'w \<Rightarrow> ((uint16 \<times> error option) \<times> 'w) option"
where
  "GetDistance_loop env ls startedAt value0 w =
     (case GetDistance_attempt env ls value0 w of None \<Rightarrow> None
      | Some ((value, err), w2) \<Rightarrow>
          if err = None then Some ((value, err), w2)
          else (case time_Since env startedAt w2 of (elapsed, w3) \<Rightarrow>
            if elapsed \<ge> WaitTimeout ls then Some ((value, err), w3)
            else GetDistance_loop env ls startedAt value w3))"

declare GetDistance_loop.simps [code]

definition GetDistance ::
  "'w env \<Rightarrow> Lidar \<Rightarrow> 'w \<Rightarrow> ((uint16 \<times> error option) \<times> 'w) option" where
  "GetDistance env ls w =
     (case time_Now env w of (startedAt, w0) \<Rightarrow>
        (case setAcquisitionCount env ls 0 w0 of
           (Some e, w1) \<Rightarrow> Some ((0, Some e), w1)
         | (None, w1) \<Rightarrow> GetDistance_loop env ls startedAt 0 w1))"

text \<open>\<open>int16(int(int8(valueUnscaled)) * int(scale) / 20)\<close>: the byte read as a signed
  8-bit number, the scale as an unsigned one, the quotient truncated towards zero.\<close>

definition scaleVelocity :: "byte \<Rightarrow> byte \<Rightarrow> int16" where
  "scaleVelocity valueUnscaled scale = word_of_int ((sint valueUnscaled * uint scale) sdiv 20)"

definition ReadVelocity ::
  "'w env \<Rightarrow> Lidar \<Rightarrow> 'w \<Rightarrow> ((int16 \<times> error option) \<times> 'w) option" where
  "ReadVelocity env ls w =
     (case waitAcquisitionReady env ls w of None \<Rightarrow> None
      | Some (healthError, w1) \<Rightarrow>
          if healthError \<noteq> None \<and> \<not> isHealthError (the healthError)
          then Some ((0, healthError), w1)
          else (case bus_ReadByteFromReg env (address ls) modeControlRegister w1 of
                  ((_, Some e), w2) \<Rightarrow> Some ((0, Some e), w2)
                | ((control, None), w2) \<Rightarrow>
                    (case (if control AND customAcquisitionInterval \<noteq> 0
                           then bus_ReadByteFromReg env (address ls) 0x45 w2
                           else ((word_of_int defaultIntervalValue, None), w2)) of
                       ((_, Some e), w3) \<Rightarrow> Some ((0, Some e), w3)
                     | ((scale, None), w3) \<Rightarrow>
                         (case bus_ReadByteFromReg env (address ls) 0x09 w3 of
                            ((_, Some e), w4) \<Rightarrow> Some ((0, Some e), w4)
                          | ((valueUnscaled, None), w4) \<Rightarrow>
                              Some ((scaleVelocity valueUnscaled scale, healthError), w4)))))"

definition GetVersion :: "'w env \<Rightarrow> Lidar \<Rightarrow> 'w \<Rightarrow> (byte \<times> byte \<times> error option) \<times> 'w" where
  "GetVersion env ls w =
     (case bus_ReadByteFromReg env (address ls) 0x41 w of
        ((hw, Some e), w1) \<Rightarrow> ((hw, 0, Some e), w1)
      | ((hw, None), w1) \<Rightarrow>
          (case bus_ReadByteFromReg env (address ls) 0x4f w1 of
             ((sw, err), w2) \<Rightarrow> ((hw, sw, err), w2)))"

subsection \<open>Observing the bus: a transport that records its calls\<close>

text \<open>\<open>logged env\<close> behaves as \<open>env\<close> and appends every call it receives to a list
  kept beside the world, so that statements about which registers a driver function
  reads or writes are statements about that list.\<close>

datatype event =
    ReadByte byte byte
  | ReadWord byte byte
  | WriteByte byte byte byte
  | ReadClock
  | Slept Duration

fun isWrite :: "event \<Rightarrow> bool" where
  "isWrite (WriteByte a r v) = True"
| "isWrite _ = False"

definition logged :: "'w env \<Rightarrow> ('w \<times> event list) env" where
  "logged env =
     \<lparr>bus_ReadByteFromReg = (\<lambda>a r (w, l).
        case bus_ReadByteFromReg env a r w of (res, w') \<Rightarrow> (res, (w', l @ [ReadByte a r]))),
      bus_ReadWordFromReg = (\<lambda>a r (w, l).
        case bus_ReadWordFromReg env a r w of (res, w') \<Rightarrow> (res, (w', l @ [ReadWord a r]))),
      bus_WriteByteToReg = (\<lambda>a r v (w, l).
        case bus_WriteByteToReg env a r v w of (res, w') \<Rightarrow> (res, (w', l @ [WriteByte a r v]))),
      time_Now = (\<lambda>(w, l).
        case time_Now env w of (t, w') \<Rightarrow> (t, (w', l @ [ReadClock]))),
      time_Sleep = (\<lambda>d (w, l). (time_Sleep env d w, l @ [Slept d]))\<rparr>"

subsection \<open>A simulated device\<close>

text \<open>A register file behind a bus on which every transaction takes \<open>latency\<close>
  nanoseconds and the registers marked in \<open>nak\<close> are not acknowledged. Sleeping advances
  the clock by the requested duration (not at all for a non-positive one).\<close>

record device =
  clock :: Time
  regs :: "byte \<Rightarrow> byte"
  nak :: "byte \<Rightarrow> bool"

definition errNak :: error where
  "errNak = BusError ''remote I/O error''"

definition sim :: "Duration \<Rightarrow> device env" where
  "sim latency =
     \<lparr>bus_ReadByteFromReg = (\<lambda>a r d.
        (if nak d r then (0, Some errNak) else (regs d r, None),
         d\<lparr>clock := clock d + latency\<rparr>)),
      bus_ReadWordFromReg = (\<lambda>a r d.
        (if nak d r then (0, Some errNak)
         else (push_bit 8 (ucast (regs d r)) OR ucast (regs d (r + 1)), None),
         d\<lparr>clock := clock d + latency\<rparr>)),
      bus_WriteByteToReg = (\<lambda>a r v d.
        if nak d r then (Some errNak, d\<lparr>clock := clock d + latency\<rparr>)
        else (None, d\<lparr>clock := clock d + latency, regs := (regs d)(r := v)\<rparr>)),
      time_Now = (\<lambda>d. (clock d, d)),
      time_Sleep = (\<lambda>t d. d\<lparr>clock := clock d + max 0 t\<rparr>)\<rparr>"

definition sensor :: "(byte \<times> byte) list \<Rightarrow> byte list \<Rightarrow> device" where
  "sensor contents broken =
     \<lparr>clock = 0,
      regs = (\<lambda>r. case map_of contents r of None \<Rightarrow> 0 | Some v \<Rightarrow> v),
      nak = (\<lambda>r. r \<in> set broken)\<rparr>"

subsection \<open>Clocks that advance\<close>

text \<open>\<open>ticking env clk\<close>: \<open>clk\<close> reads the clock of a world, \<open>time.Now\<close> returns that
  reading, every bus transaction takes at least one nanosecond, and the clock never
  runs backwards.\<close>

definition ticking :: "'w env \<Rightarrow> ('w \<Rightarrow> Time) \<Rightarrow> bool" where
  "ticking env clk \<longleftrightarrow>
     (\<forall>a r w. clk w < clk (snd (bus_ReadByteFromReg env a r w)))
     \<and> (\<forall>a r w. clk w < clk (snd (bus_ReadWordFromReg env a r w)))
     \<and> (\<forall>a r v w. clk w < clk (snd (bus_WriteByteToReg env a r v w)))
     \<and> (\<forall>w. fst (time_Now env w) = clk w \<and> clk w \<le> clk (snd (time_Now env w)))
     \<and> (\<forall>d w. clk w \<le> clk (time_Sleep env d w))"

subsection \<open>Decoding an interval register value\<close>

text \<open>The driver has no function that turns a register value back into a duration. The
  register counts half milliseconds: the translation multiplies the milliseconds by two,
  and the comment beside it says that \<open>0xc8\<close> corresponds to 10 Hz and \<open>0x14\<close> to
  100 Hz. \<open>registerUnit\<close> is that half millisecond, and \<open>decodedInterval\<close> is the
  duration that a register value stands for.\<close>

definition registerUnit :: Duration where
  "registerUnit = 500000"

definition decodedInterval :: "int \<Rightarrow> Duration" where
  "decodedInterval raw = raw * registerUnit"

section \<open>Properties\<close>

lemmas const_defs = Busy_def Healthy_def ErrorDetected_def SignalNotDetected_def
  customAcquisitionInterval_def velocityModeEnabled_def modeControlRegister_def
  DefaultAddress_def Millisecond_def Second_def minDuration_def maxDuration_def
  UnhealthyReference_def UnhealthyTransmitPower_def UnhealthyDC_def

lemmas sim_defs = sim_def sensor_def NewLidar_def GetStatus_def time_Since_def

lemmas wait_defs = waitAcquisitionReady_def waitReadyStatus_def waitReadyForCommand_def
  classifyStatus_def

subsection \<open>Health messages\<close>

text \<open>
  C10. For every flags byte, \<open>HealthError.Error()\<close> resolves simultaneous sub-flags by
  first match in the order reference signal, transmit power, DC (preamplifier): with the
  reference bit set the message is the reference-failure message whatever the other bits
  are; the transmit-power message needs the reference bit clear, the DC message needs both
  of the earlier bits clear; with none of the three bits set, and so for the flags byte 0
  that a failed read of the detail register leaves, the message is the generic one.
\<close>

theorem HealthError_Error_first_match:
  "(flags AND UnhealthyReference \<noteq> 0 \<longrightarrow>
      HealthError_Error flags = ''LIDAR unhealthy: reference signal failure'')
   \<and> (flags AND UnhealthyReference = 0 \<and> flags AND UnhealthyTransmitPower \<noteq> 0 \<longrightarrow>
      HealthError_Error flags = ''LIDAR unhealthy: transmit power failure'')
   \<and> (flags AND UnhealthyReference = 0 \<and> flags AND UnhealthyTransmitPower = 0
        \<and> flags AND UnhealthyDC \<noteq> 0 \<longrightarrow>
      HealthError_Error flags = ''LIDAR unhealthy: DC (preamplifier) failure'')
   \<and> (flags AND UnhealthyReference = 0 \<and> flags AND UnhealthyTransmitPower = 0
        \<and> flags AND UnhealthyDC = 0 \<longrightarrow>
      HealthError_Error flags = ''LIDAR unhealthy, measurement result may be inaccurate'')
   \<and> HealthError_Error 0 = ''LIDAR unhealthy, measurement result may be inaccurate''"
  by (simp add: HealthError_Error_def)

theorem HealthError_Error_first_match_witness:
  "HealthError_Error 0x0E = ''LIDAR unhealthy: reference signal failure''
   \<and> HealthError_Error 0x0C = ''LIDAR unhealthy: transmit power failure''
   \<and> HealthError_Error 0x08 = ''LIDAR unhealthy: DC (preamplifier) failure''
   \<and> HealthError_Error 0x01 = ''LIDAR unhealthy, measurement result may be inaccurate''"
  using HealthError_Error_first_match [of "0x0E"] HealthError_Error_first_match [of "0x0C"]
    HealthError_Error_first_match [of "0x08"] HealthError_Error_first_match [of "0x01"]
  by (simp add: const_defs)

subsection \<open>Velocity decoding\<close>

lemma sdiv_abs_le: "\<bar>(x::int) sdiv 20\<bar> \<le> \<bar>x\<bar>"
proof (cases "x = 0")
  case True
  then show ?thesis by simp
next
  case False
  then have "\<bar>x sdiv 20\<bar> = \<bar>x\<bar> div 20"
    by (simp add: signed_divide_int_def abs_mult abs_sgn_eq)
  also have "\<dots> \<le> \<bar>x\<bar>"
    by simp
  finally show ?thesis .
qed

lemma velocity_product_bound: "\<bar>sint (r::byte) * uint (s::byte)\<bar> \<le> 32640"
proof -
  have "- 128 \<le> sint r \<and> sint r < 128"
    using sint_range_size [of r] by (simp add: word_size)
  then have r: "\<bar>sint r\<bar> \<le> 128"
    by linarith
  have s: "\<bar>uint s\<bar> \<le> 255"
    using uint_bounded [of s] by simp
  have "\<bar>sint r * uint s\<bar> = \<bar>sint r\<bar> * \<bar>uint s\<bar>"
    by (simp add: abs_mult)
  also have "\<dots> \<le> 128 * 255"
    using r s by (intro mult_mono) simp_all
  finally show ?thesis by simp
qed

text \<open>The quotient always fits \<open>int16\<close>, so the conversion loses nothing.\<close>

lemma sint_scaleVelocity: "sint (scaleVelocity r s) = (sint r * uint s) sdiv 20"
proof -
  have "\<bar>(sint r * uint s) sdiv 20\<bar> \<le> 32640"
    using sdiv_abs_le [of "sint r * uint s"] velocity_product_bound [of r s] by linarith
  then have "- (2 ^ 15) \<le> (sint r * uint s) sdiv 20 \<and> (sint r * uint s) sdiv 20 < 2 ^ 15"
    by (simp add: abs_le_iff)
  then show ?thesis
    unfolding scaleVelocity_def by (simp add: sint_sbintrunc' signed_take_bit_int_eq_self)
qed

text \<open>The division truncates towards zero: -1 * 1 / 20 is 0, and 255 * 127 / 20 is
  1619.\<close>

lemma scaleVelocity_truncates:
  "sint (scaleVelocity 0xFF 1) = 0" "sint (scaleVelocity 0x7F 0xFF) = 1619"
  by (simp_all add: sint_scaleVelocity signed_divide_int_def)

text \<open>
  C1. For every raw velocity byte \<open>r\<close> and scale byte \<open>s\<close>: when the readiness wait
  ends without a fatal error (no error, or a \<open>HealthError\<close>) and the register reads
  succeed, with \<open>s\<close> the scale in effect (register 0x45 when the custom-interval bit of
  the control register is set, 0xc8 otherwise), \<open>ReadVelocity\<close> returns the \<open>int16\<close>
  whose value is \<open>r\<close> read as a signed 8-bit number, times \<open>s\<close>, divided by 20 with
  truncation towards zero, together with the error of the wait. In particular raw 0xFF
  with scale 200 gives -10 and raw 0x7F with scale 20 gives 127.
\<close>

theorem ReadVelocity_value:
  assumes "waitAcquisitionReady env ls w = Some (healthError, w1)"
    and "healthError = None \<or> (\<exists>flags. healthError = Some (HealthError flags))"
    and "bus_ReadByteFromReg env (address ls) modeControlRegister w1 = ((control, None), w2)"
    and "control AND customAcquisitionInterval \<noteq> 0 \<longrightarrow>
           bus_ReadByteFromReg env (address ls) 0x45 w2 = ((s, None), w3)"
    and "control AND customAcquisitionInterval = 0 \<longrightarrow> s = 0xc8 \<and> w3 = w2"
    and "bus_ReadByteFromReg env (address ls) 0x09 w3 = ((r, None), w4)"
  shows "ReadVelocity env ls w = Some ((scaleVelocity r s, healthError), w4)
         \<and> sint (scaleVelocity r s) = (sint r * uint s) sdiv 20
         \<and> sint (scaleVelocity 0xFF 200) = - 10
         \<and> sint (scaleVelocity 0x7F 20) = 127"
proof -
  have "ReadVelocity env ls w = Some ((scaleVelocity r s, healthError), w4)"
    using assms by (auto simp: ReadVelocity_def defaultIntervalValue_def)
  moreover have "sint (scaleVelocity 0xFF 200) = - 10" "sint (scaleVelocity 0x7F 20) = 127"
    by (simp_all add: sint_scaleVelocity signed_divide_int_def)
  ultimately show ?thesis
    by (simp add: sint_scaleVelocity)
qed

theorem ReadVelocity_value_witness:
  "map_option fst (ReadVelocity (sim 100000) (NewLidar DefaultAddress)
      (sensor [(0x01, Healthy), (0x04, 0x20), (0x45, 200), (0x09, 0xFF)] []))
     = Some (- 10, None)
   \<and> map_option fst (ReadVelocity (sim 100000) (NewLidar DefaultAddress)
      (sensor [(0x01, 0), (0x04, 0x20), (0x45, 20), (0x09, 0x7F)] [0x48]))
     = Some (127, Some (HealthError 0))"
proof -
  let ?ls = "NewLidar DefaultAddress"
  let ?d = "sensor [(0x01, Healthy), (0x04, 0x20), (0x45, 200), (0x09, 0xFF)] []"
  let ?e = "sensor [(0x01, 0), (0x04, 0x20), (0x45, 20), (0x09, 0x7F)] [0x48]"
  have d1: "waitAcquisitionReady (sim 100000) ?ls ?d = Some (None, ?d\<lparr>clock := 100000\<rparr>)"
    by (simp add: wait_defs waitReadyStatus_loop.simps sim_defs const_defs)
  have d2: "bus_ReadByteFromReg (sim 100000) (address ?ls) modeControlRegister
              (?d\<lparr>clock := 100000\<rparr>) = ((0x20, None), ?d\<lparr>clock := 200000\<rparr>)"
    by (simp add: sim_defs const_defs)
  have d3: "(0x20 :: byte) AND customAcquisitionInterval \<noteq> 0 \<longrightarrow>
            bus_ReadByteFromReg (sim 100000) (address ?ls) 0x45 (?d\<lparr>clock := 200000\<rparr>)
              = ((200, None), ?d\<lparr>clock := 300000\<rparr>)"
    by (simp add: sim_defs const_defs)
  have d4: "(0x20 :: byte) AND customAcquisitionInterval = 0 \<longrightarrow>
            (200 :: byte) = 0xc8 \<and> ?d\<lparr>clock := 300000\<rparr> = ?d\<lparr>clock := 200000\<rparr>"
    by (simp add: const_defs)
  have d5: "bus_ReadByteFromReg (sim 100000) (address ?ls) 0x09 (?d\<lparr>clock := 300000\<rparr>)
              = ((0xFF, None), ?d\<lparr>clock := 400000\<rparr>)"
    by (simp add: sim_defs const_defs)
  have e1: "waitAcquisitionReady (sim 100000) ?ls ?e
              = Some (Some (HealthError 0), ?e\<lparr>clock := 200000\<rparr>)"
    by (simp add: wait_defs waitReadyStatus_loop.simps sim_defs const_defs)
  have e2: "bus_ReadByteFromReg (sim 100000) (address ?ls) modeControlRegister
              (?e\<lparr>clock := 200000\<rparr>) = ((0x20, None), ?e\<lparr>clock := 300000\<rparr>)"
    by (simp add: sim_defs const_defs)
  have e3: "(0x20 :: byte) AND customAcquisitionInterval \<noteq> 0 \<longrightarrow>
            bus_ReadByteFromReg (sim 100000) (address ?ls) 0x45 (?e\<lparr>clock := 300000\<rparr>)
              = ((20, None), ?e\<lparr>clock := 400000\<rparr>)"
    by (simp add: sim_defs const_defs)
  have e4: "(0x20 :: byte) AND customAcquisitionInterval = 0 \<longrightarrow>
            (20 :: byte) = 0xc8 \<and> ?e\<lparr>clock := 400000\<rparr> = ?e\<lparr>clock := 300000\<rparr>"
    by (simp add: const_defs)
  have e5: "bus_ReadByteFromReg (sim 100000) (address ?ls) 0x09 (?e\<lparr>clock := 400000\<rparr>)
              = ((0x7F, None), ?e\<lparr>clock := 500000\<rparr>)"
    by (simp add: sim_defs const_defs)
  have sd: "scaleVelocity 0xFF 200 = - 10" "scaleVelocity 0x7F 20 = 127"
    by (simp_all add: scaleVelocity_def signed_divide_int_def)
  show ?thesis
    using ReadVelocity_value [OF d1 _ d2 d3 d4 d5] ReadVelocity_value [OF e1 _ e2 e3 e4 e5]
    by (simp add: sd)
qed

subsection \<open>Facts about the recording transport\<close>

lemma logged_ReadByte [simp]:
  "bus_ReadByteFromReg (logged env) a r (w, l) =
     (fst (bus_ReadByteFromReg env a r w),
      (snd (bus_ReadByteFromReg env a r w), l @ [ReadByte a r]))"
  by (simp add: logged_def split: prod.splits)

lemma logged_ReadWord [simp]:
  "bus_ReadWordFromReg (logged env) a r (w, l) =
     (fst (bus_ReadWordFromReg env a r w),
      (snd (bus_ReadWordFromReg env a r w), l @ [ReadWord a r]))"
  by (simp add: logged_def split: prod.splits)

lemma logged_WriteByte [simp]:
  "bus_WriteByteToReg (logged env) a r v (w, l) =
     (fst (bus_WriteByteToReg env a r v w),
      (snd (bus_WriteByteToReg env a r v w), l @ [WriteByte a r v]))"
  by (simp add: logged_def split: prod.splits)

lemma logged_Now [simp]:
  "time_Now (logged env) (w, l) =
     (fst (time_Now env w), (snd (time_Now env w), l @ [ReadClock]))"
  by (simp add: logged_def split: prod.splits)

lemma logged_Sleep [simp]:
  "time_Sleep (logged env) d (w, l) = (time_Sleep env d w, l @ [Slept d])"
  by (simp add: logged_def)

lemma int64_id: "- (2 ^ 63) \<le> x \<Longrightarrow> x < 2 ^ 63 \<Longrightarrow> int64 x = x"
  by (simp add: int64_def signed_take_bit_int_eq_self)

subsection \<open>The status poll\<close>

text \<open>One iteration of the poll loop, from any loop state.\<close>

lemma waitReadyStatus_loop_step:
  assumes "GetStatus env ls w = ((status, err), w1)"
    and "time_Since env startedAt w1 = (elapsed, w2)"
  shows "(err = None \<and> status AND Busy = 0 \<longrightarrow>
            waitReadyStatus_loop env ls startedAt backoff w = Some ((status, None), w1))
       \<and> (\<not> (err = None \<and> status AND Busy = 0) \<and> WaitTimeout ls \<le> elapsed \<longrightarrow>
            waitReadyStatus_loop env ls startedAt backoff w =
              Some ((status, if err = None then Some errTimedOut else err), w2))
       \<and> (\<not> (err = None \<and> status AND Busy = 0) \<and> elapsed < WaitTimeout ls \<longrightarrow>
            waitReadyStatus_loop env ls startedAt backoff w =
              waitReadyStatus_loop env ls startedAt (int64 (backoff * 2))
                (time_Sleep env backoff w2))"
  using assms by (subst (1 2 3) waitReadyStatus_loop.simps) auto

text \<open>
  C5. \<open>waitReadyStatus\<close> reads the clock and polls, with a first backoff of one
  millisecond. In its first poll and in every later one: a status read that succeeds
  with Busy clear makes it return that status at once, with no error; otherwise, when
  the elapsed time has reached \<open>WaitTimeout\<close>, it returns, with the timeout error if
  this last read succeeded and with the read's own error, unchanged, if it failed;
  otherwise it sleeps for the backoff, doubles it and polls again, in the same way for a
  failed read as for a busy device.
\<close>

theorem waitReadyStatus_cases:
  assumes "time_Now env w = (startedAt, w0)"
  shows "(\<forall>status err w1 elapsed w2.
            GetStatus env ls w0 = ((status, err), w1)
            \<and> time_Since env startedAt w1 = (elapsed, w2) \<longrightarrow>
              (err = None \<and> status AND Busy = 0 \<longrightarrow>
                 waitReadyStatus env ls w = Some ((status, None), w1))
            \<and> (\<not> (err = None \<and> status AND Busy = 0) \<and> WaitTimeout ls \<le> elapsed \<longrightarrow>
                 waitReadyStatus env ls w =
                   Some ((status, if err = None then Some errTimedOut else err), w2))
            \<and> (\<not> (err = None \<and> status AND Busy = 0) \<and> elapsed < WaitTimeout ls \<longrightarrow>
                 waitReadyStatus env ls w =
                   waitReadyStatus_loop env ls startedAt (int64 (Millisecond * 2))
                     (time_Sleep env Millisecond w2)))
       \<and> (\<forall>backoff u status err u1 elapsed u2.
            GetStatus env ls u = ((status, err), u1)
            \<and> time_Since env startedAt u1 = (elapsed, u2) \<longrightarrow>
              (err = None \<and> status AND Busy = 0 \<longrightarrow>
                 waitReadyStatus_loop env ls startedAt backoff u = Some ((status, None), u1))
            \<and> (\<not> (err = None \<and> status AND Busy = 0) \<and> WaitTimeout ls \<le> elapsed \<longrightarrow>
                 waitReadyStatus_loop env ls startedAt backoff u =
                   Some ((status, if err = None then Some errTimedOut else err), u2))
            \<and> (\<not> (err = None \<and> status AND Busy = 0) \<and> elapsed < WaitTimeout ls \<longrightarrow>
                 waitReadyStatus_loop env ls startedAt backoff u =
                   waitReadyStatus_loop env ls startedAt (int64 (backoff * 2))
                     (time_Sleep env backoff u2)))
       \<and> waitReadyStatus env ls w = waitReadyStatus_loop env ls startedAt Millisecond w0"
proof (intro conjI allI impI)
  show entry: "waitReadyStatus env ls w = waitReadyStatus_loop env ls startedAt Millisecond w0"
    using assms by (simp add: waitReadyStatus_def)
  fix status err w1 elapsed w2
  assume h: "GetStatus env ls w0 = ((status, err), w1)
             \<and> time_Since env startedAt w1 = (elapsed, w2)"
  note step = waitReadyStatus_loop_step [of env ls w0 status err w1 startedAt elapsed w2
      Millisecond]
  {
    assume "err = None \<and> status AND Busy = 0"
    then show "waitReadyStatus env ls w = Some ((status, None), w1)"
      using h step entry by simp
  }
  {
    assume "\<not> (err = None \<and> status AND Busy = 0) \<and> WaitTimeout ls \<le> elapsed"
    then show "waitReadyStatus env ls w =
                 Some ((status, if err = None then Some errTimedOut else err), w2)"
      using h step entry by simp
  }
  {
    assume "\<not> (err = None \<and> status AND Busy = 0) \<and> elapsed < WaitTimeout ls"
    then show "waitReadyStatus env ls w =
                 waitReadyStatus_loop env ls startedAt (int64 (Millisecond * 2))
                   (time_Sleep env Millisecond w2)"
      using h step entry by simp
  }
next
  fix backoff u status err u1 elapsed u2
  assume h: "GetStatus env ls u = ((status, err), u1)
             \<and> time_Since env startedAt u1 = (elapsed, u2)"
  note step = waitReadyStatus_loop_step [of env ls u status err u1 startedAt elapsed u2
      backoff]
  {
    assume "err = None \<and> status AND Busy = 0"
    then show "waitReadyStatus_loop env ls startedAt backoff u = Some ((status, None), u1)"
      using h step by simp
  }
  {
    assume "\<not> (err = None \<and> status AND Busy = 0) \<and> WaitTimeout ls \<le> elapsed"
    then show "waitReadyStatus_loop env ls startedAt backoff u =
                 Some ((status, if err = None then Some errTimedOut else err), u2)"
      using h step by simp
  }
  {
    assume "\<not> (err = None \<and> status AND Busy = 0) \<and> elapsed < WaitTimeout ls"
    then show "waitReadyStatus_loop env ls startedAt backoff u =
                 waitReadyStatus_loop env ls startedAt (int64 (backoff * 2))
                   (time_Sleep env backoff u2)"
      using h step by simp
  }
qed

theorem waitReadyStatus_cases_witness:
  "waitReadyStatus (logged (sim 100000)) (NewLidar DefaultAddress)
      (sensor [(0x01, Healthy)] [], [])
     = Some ((Healthy, None),
             ((sensor [(0x01, Healthy)] [])\<lparr>clock := 100000\<rparr>,
              [ReadClock, ReadByte 0x62 0x01]))
   \<and> waitReadyStatus (logged (sim 100000)) \<lparr>address = 0x62, WaitTimeout = 1000000\<rparr>
      (sensor [(0x01, Busy)] [], [])
     = Some ((Busy, Some errTimedOut),
             ((sensor [(0x01, Busy)] [])\<lparr>clock := 1200000\<rparr>,
              [ReadClock, ReadByte 0x62 0x01, ReadClock, Slept 1000000,
               ReadByte 0x62 0x01, ReadClock]))
   \<and> waitReadyStatus (logged (sim 100000)) \<lparr>address = 0x62, WaitTimeout = 1000000\<rparr>
      (sensor [] [0x01], [])
     = Some ((0, Some errNak),
             ((sensor [] [0x01])\<lparr>clock := 1200000\<rparr>,
              [ReadClock, ReadByte 0x62 0x01, ReadClock, Slept 1000000,
               ReadByte 0x62 0x01, ReadClock]))"
proof -
  let ?env = "logged (sim 100000)"
  let ?ls = "NewLidar DefaultAddress"
  let ?lt = "\<lparr>address = 0x62, WaitTimeout = 1000000\<rparr>"
  let ?h = "sensor [(0x01, Healthy)] []"
  let ?b = "sensor [(0x01, Busy)] []"
  let ?n = "sensor [] [0x01]"
  let ?la = "[ReadClock, ReadByte 0x62 0x01]"
  let ?lb = "[ReadClock, ReadByte 0x62 0x01, ReadClock]"
  let ?lc = "[ReadClock, ReadByte 0x62 0x01, ReadClock, Slept 1000000]"
  let ?ld = "[ReadClock, ReadByte 0x62 0x01, ReadClock, Slept 1000000, ReadByte 0x62 0x01]"
  let ?le = "[ReadClock, ReadByte 0x62 0x01, ReadClock, Slept 1000000, ReadByte 0x62 0x01,
              ReadClock]"
  have c: "Healthy AND Busy = 0" "Busy \<noteq> 0" "int64 (Millisecond * 2) = 2000000"
       "Millisecond = 1000000"
    by (simp_all add: const_defs int64_id)
  have nh: "time_Now ?env (?h, []) = (0, (?h, [ReadClock]))"
    by (simp add: sim_defs)
  have gh: "GetStatus ?env ?ls (?h, [ReadClock])
              = ((Healthy, None), (?h\<lparr>clock := 100000\<rparr>, ?la))"
    by (simp add: sim_defs const_defs)
  have sh: "time_Since ?env 0 (?h\<lparr>clock := 100000\<rparr>, ?la)
              = (100000, (?h\<lparr>clock := 100000\<rparr>, ?lb))"
    by (simp add: sim_defs const_defs)
  have A: "waitReadyStatus ?env ?ls (?h, [])
             = Some ((Healthy, None), (?h\<lparr>clock := 100000\<rparr>, ?la))"
    using waitReadyStatus_cases [OF nh, of ?ls] gh sh c by blast
  have nb: "time_Now ?env (?b, []) = (0, (?b, [ReadClock]))"
    by (simp add: sim_defs)
  have gb: "GetStatus ?env ?lt (?b, [ReadClock])
              = ((Busy, None), (?b\<lparr>clock := 100000\<rparr>, ?la))"
    by (simp add: sim_defs const_defs)
  have sb: "time_Since ?env 0 (?b\<lparr>clock := 100000\<rparr>, ?la)
              = (100000, (?b\<lparr>clock := 100000\<rparr>, ?lb))"
    by (simp add: sim_defs const_defs)
  have zb: "time_Sleep ?env Millisecond (?b\<lparr>clock := 100000\<rparr>, ?lb)
              = (?b\<lparr>clock := 1100000\<rparr>, ?lc)"
    by (simp add: sim_defs const_defs)
  have gb2: "GetStatus ?env ?lt (?b\<lparr>clock := 1100000\<rparr>, ?lc)
              = ((Busy, None), (?b\<lparr>clock := 1200000\<rparr>, ?ld))"
    by (simp add: sim_defs const_defs)
  have sb2: "time_Since ?env 0 (?b\<lparr>clock := 1200000\<rparr>, ?ld)
              = (1200000, (?b\<lparr>clock := 1200000\<rparr>, ?le))"
    by (simp add: sim_defs const_defs)
  have t: "(100000::int) < WaitTimeout ?lt" "WaitTimeout ?lt \<le> 1200000"
    by simp_all
  have B1: "waitReadyStatus ?env ?lt (?b, [])
              = waitReadyStatus_loop ?env ?lt 0 2000000 (?b\<lparr>clock := 1100000\<rparr>, ?lc)"
    using waitReadyStatus_cases [OF nb, of ?lt] gb sb c t zb by (simp del: logged_Sleep)
  have B2: "waitReadyStatus_loop ?env ?lt 0 2000000 (?b\<lparr>clock := 1100000\<rparr>, ?lc)
              = Some ((Busy, Some errTimedOut), (?b\<lparr>clock := 1200000\<rparr>, ?le))"
    using waitReadyStatus_cases [OF nb, of ?lt] gb2 sb2 c t by simp
  have nn: "time_Now ?env (?n, []) = (0, (?n, [ReadClock]))"
    by (simp add: sim_defs)
  have gn: "GetStatus ?env ?lt (?n, [ReadClock])
              = ((0, Some errNak), (?n\<lparr>clock := 100000\<rparr>, ?la))"
    by (simp add: sim_defs const_defs)
  have sn: "time_Since ?env 0 (?n\<lparr>clock := 100000\<rparr>, ?la)
              = (100000, (?n\<lparr>clock := 100000\<rparr>, ?lb))"
    by (simp add: sim_defs const_defs)
  have zn: "time_Sleep ?env Millisecond (?n\<lparr>clock := 100000\<rparr>, ?lb)
              = (?n\<lparr>clock := 1100000\<rparr>, ?lc)"
    by (simp add: sim_defs const_defs)
  have gn2: "GetStatus ?env ?lt (?n\<lparr>clock := 1100000\<rparr>, ?lc)
              = ((0, Some errNak), (?n\<lparr>clock := 1200000\<rparr>, ?ld))"
    by (simp add: sim_defs const_defs)
  have sn2: "time_Since ?env 0 (?n\<lparr>clock := 1200000\<rparr>, ?ld)
              = (1200000, (?n\<lparr>clock := 1200000\<rparr>, ?le))"
    by (simp add: sim_defs const_defs)
  have C1: "waitReadyStatus ?env ?lt (?n, [])
              = waitReadyStatus_loop ?env ?lt 0 2000000 (?n\<lparr>clock := 1100000\<rparr>, ?lc)"
    using waitReadyStatus_cases [OF nn, of ?lt] gn sn c t zn by (simp del: logged_Sleep)
  have C2: "waitReadyStatus_loop ?env ?lt 0 2000000 (?n\<lparr>clock := 1100000\<rparr>, ?lc)
              = Some ((0, Some errNak), (?n\<lparr>clock := 1200000\<rparr>, ?le))"
    using waitReadyStatus_cases [OF nn, of ?lt] gn2 sn2 c t by simp
  show ?thesis
    using A B1 B2 C1 C2 by simp
qed

subsection \<open>Health classification\<close>

text \<open>A status that \<open>waitReadyStatus\<close> returns without error has Busy clear.\<close>

lemma waitReadyStatus_loop_Busy_clear:
  assumes "waitReadyStatus_loop env ls t b w = Some r"
  shows "snd (fst r) = None \<longrightarrow> fst (fst r) AND Busy = 0"
proof (rule waitReadyStatus_loop.raw_induct
    [where P = "\<lambda>env ls t b w r. snd (fst r) = None \<longrightarrow> fst (fst r) AND Busy = 0",
      OF _ assms])
  fix f :: "'a env \<Rightarrow> Lidar \<Rightarrow> int \<Rightarrow> int \<Rightarrow> 'a \<Rightarrow> ((byte \<times> error option) \<times> 'a) option"
  fix env ls startedAt backoff w r
  assume IH: "\<And>env ls startedAt backoff w r. f env ls startedAt backoff w = Some r \<Longrightarrow>
                 snd (fst r) = None \<longrightarrow> fst (fst r) AND Busy = 0"
  assume step: "(case GetStatus env ls w of
      ((status, err), w1) \<Rightarrow>
        if err = None \<and> status AND Busy = 0 then Some ((status, err), w1)
        else case time_Since env startedAt w1 of
             (elapsed, w2) \<Rightarrow>
               if WaitTimeout ls \<le> elapsed
               then Some ((status, if err = None then Some errTimedOut else err), w2)
               else f env ls startedAt (int64 (backoff * 2)) (time_Sleep env backoff w2)) =
     Some r"
  obtain status err w1 where g: "GetStatus env ls w = ((status, err), w1)"
    by (metis surj_pair)
  obtain elapsed w2 where s: "time_Since env startedAt w1 = (elapsed, w2)"
    by (metis surj_pair)
  show "snd (fst r) = None \<longrightarrow> fst (fst r) AND Busy = 0"
    using step IH [of env ls startedAt "int64 (backoff * 2)" "time_Sleep env backoff w2" r]
    by (auto simp: g s split: if_splits)
qed

lemma waitReadyStatus_Busy_clear:
  "waitReadyStatus env ls w = Some ((status, None), w1) \<Longrightarrow> status AND Busy = 0"
  using waitReadyStatus_loop_Busy_clear [of env ls _ Millisecond _ "((status, None), w1)"]
  by (auto simp: waitReadyStatus_def split: prod.splits)

text \<open>
  C3. For every status that the poll returns without error (so with Busy clear):
  when Healthy is clear and ErrorDetected is set, \<open>waitAcquisitionReady\<close> returns a
  fatal error, not the \<open>HealthError\<close>; a set SignalNotDetected bit (bit 3, named
  SignalNotValid in earlier revisions of the driver) overrides the health error as well. The three checks run in the order Healthy, ErrorDetected,
  SignalNotDetected and the last condition found decides: the signal error if
  SignalNotDetected is set, else the measurement error if ErrorDetected is set, else the
  \<open>HealthError\<close> (with the flags read from register 0x48) if Healthy is clear, else no
  error.
\<close>

theorem waitAcquisitionReady_precedence:
  assumes "waitReadyStatus env ls w = Some ((status, None), w1)"
  shows "(status AND Healthy = 0 \<and> status AND ErrorDetected \<noteq> 0 \<longrightarrow>
            map_option fst (waitAcquisitionReady env ls w) =
              Some (Some (if status AND SignalNotDetected \<noteq> 0 then errSignalNotDetected
                          else errErrorDetected)))
       \<and> (status AND SignalNotDetected \<noteq> 0 \<longrightarrow>
            map_option fst (waitAcquisitionReady env ls w) = Some (Some errSignalNotDetected))
       \<and> (status AND SignalNotDetected = 0 \<and> status AND ErrorDetected \<noteq> 0 \<longrightarrow>
            map_option fst (waitAcquisitionReady env ls w) = Some (Some errErrorDetected))
       \<and> (status AND SignalNotDetected = 0 \<and> status AND ErrorDetected = 0
            \<and> status AND Healthy = 0 \<longrightarrow>
            map_option fst (waitAcquisitionReady env ls w) =
              Some (Some (HealthError (fst (fst (bus_ReadByteFromReg env (address ls) 0x48 w1))))))
       \<and> (status AND SignalNotDetected = 0 \<and> status AND ErrorDetected = 0
            \<and> status AND Healthy \<noteq> 0 \<longrightarrow>
            map_option fst (waitAcquisitionReady env ls w) = Some None)
       \<and> status AND Busy = 0
       \<and> \<not> isHealthError errErrorDetected \<and> \<not> isHealthError errSignalNotDetected"
  using assms waitReadyStatus_Busy_clear [OF assms]
  by (simp add: waitAcquisitionReady_def classifyStatus_def Let_def errErrorDetected_def
      errSignalNotDetected_def split: prod.splits)

theorem waitAcquisitionReady_precedence_witness:
  "map_option fst (waitAcquisitionReady (sim 100000) (NewLidar DefaultAddress)
      (sensor [(0x01, 0x40), (0x48, 0x04)] [])) = Some (Some errErrorDetected)
   \<and> map_option fst (waitAcquisitionReady (sim 100000) (NewLidar DefaultAddress)
      (sensor [(0x01, 0x48), (0x48, 0x04)] [])) = Some (Some errSignalNotDetected)
   \<and> map_option fst (waitAcquisitionReady (sim 100000) (NewLidar DefaultAddress)
      (sensor [(0x01, 0x00), (0x48, 0x04)] [])) = Some (Some (HealthError 0x04))
   \<and> map_option fst (waitAcquisitionReady (sim 100000) (NewLidar DefaultAddress)
      (sensor [(0x01, 0x20), (0x48, 0x04)] [])) = Some None"
proof -
  let ?ls = "NewLidar DefaultAddress"
  have r1: "waitReadyStatus (sim 100000) ?ls (sensor [(0x01, 0x40), (0x48, 0x04)] [])
              = Some ((0x40, None), (sensor [(0x01, 0x40), (0x48, 0x04)] [])\<lparr>clock := 100000\<rparr>)"
    by (simp add: waitReadyStatus_def waitReadyStatus_loop.simps sim_defs const_defs)
  have r2: "waitReadyStatus (sim 100000) ?ls (sensor [(0x01, 0x48), (0x48, 0x04)] [])
              = Some ((0x48, None), (sensor [(0x01, 0x48), (0x48, 0x04)] [])\<lparr>clock := 100000\<rparr>)"
    by (simp add: waitReadyStatus_def waitReadyStatus_loop.simps sim_defs const_defs)
  have r3: "waitReadyStatus (sim 100000) ?ls (sensor [(0x01, 0x00), (0x48, 0x04)] [])
              = Some ((0x00, None), (sensor [(0x01, 0x00), (0x48, 0x04)] [])\<lparr>clock := 100000\<rparr>)"
    by (simp add: waitReadyStatus_def waitReadyStatus_loop.simps sim_defs const_defs)
  have r4: "waitReadyStatus (sim 100000) ?ls (sensor [(0x01, 0x20), (0x48, 0x04)] [])
              = Some ((0x20, None), (sensor [(0x01, 0x20), (0x48, 0x04)] [])\<lparr>clock := 100000\<rparr>)"
    by (simp add: waitReadyStatus_def waitReadyStatus_loop.simps sim_defs const_defs)
  show ?thesis
    using waitAcquisitionReady_precedence [OF r1] waitAcquisitionReady_precedence [OF r2]
      waitAcquisitionReady_precedence [OF r3] waitAcquisitionReady_precedence [OF r4]
    by (simp add: const_defs sim_defs)
qed

subsection \<open>Reading the distance\<close>

text \<open>
  C4, as stated, fails when the read of the distance register itself fails: the wait
  classifies the device as degraded (\<open>HealthError\<close>), the register 0x8f is not
  acknowledged, and \<open>ReadDistance\<close> returns zero with the error of the bus, not the
  health error.
\<close>

theorem ReadDistance_failed_read_drops_HealthError:
  "waitAcquisitionReady (sim 100000) (NewLidar DefaultAddress) (sensor [(0x01, 0x10)] [0x8f])
     = Some (Some (HealthError 0), (sensor [(0x01, 0x10)] [0x8f])\<lparr>clock := 200000\<rparr>)
   \<and> ReadDistance (sim 100000) (NewLidar DefaultAddress) (sensor [(0x01, 0x10)] [0x8f])
     = Some ((0, Some errNak), (sensor [(0x01, 0x10)] [0x8f])\<lparr>clock := 300000\<rparr>)
   \<and> errNak \<noteq> HealthError 0"
  by (simp add: ReadDistance_def wait_defs waitReadyStatus_loop.simps sim_defs const_defs
      errNak_def)

text \<open>
  C4, amended. After its readiness wait \<open>ReadDistance\<close> does the following. If the wait
  ends with a \<open>HealthError\<close>, it still reads the 16-bit register 0x8f; when that read
  succeeds it returns the value read together with the health error, and when that read
  fails it returns zero and the error of the read. If the wait ends with any other
  error, it returns zero and that error, and issues no further bus call: the distance
  register is not read.
\<close>

theorem ReadDistance_soft_fail:
  assumes "waitAcquisitionReady (logged env) ls (w, l) = Some (err, (w1, l1))"
  shows "((\<exists>flags. err = Some (HealthError flags)) \<longrightarrow>
            (\<forall>v w2. bus_ReadWordFromReg env (address ls) 0x8f w1 = ((v, None), w2) \<longrightarrow>
               ReadDistance (logged env) ls (w, l) =
                 Some ((v, err), (w2, l1 @ [ReadWord (address ls) 0x8f])))
          \<and> (\<forall>v e w2. bus_ReadWordFromReg env (address ls) 0x8f w1 = ((v, Some e), w2) \<longrightarrow>
               ReadDistance (logged env) ls (w, l) =
                 Some ((0, Some e), (w2, l1 @ [ReadWord (address ls) 0x8f]))))
       \<and> ((\<exists>e. err = Some e \<and> \<not> isHealthError e) \<longrightarrow>
            ReadDistance (logged env) ls (w, l) = Some ((0, err), (w1, l1)))"
  using assms by (auto simp: ReadDistance_def)

theorem ReadDistance_soft_fail_witness:
  "ReadDistance (logged (sim 100000)) (NewLidar DefaultAddress)
      (sensor [(0x01, 0x10), (0x8f, 0x01), (0x90, 0x2C)] [], [])
     = Some ((300, Some (HealthError 0)),
             ((sensor [(0x01, 0x10), (0x8f, 0x01), (0x90, 0x2C)] [])\<lparr>clock := 300000\<rparr>,
              [ReadClock, ReadByte 0x62 0x01, ReadByte 0x62 0x48, ReadWord 0x62 0x8f]))
   \<and> ReadDistance (logged (sim 100000)) (NewLidar DefaultAddress)
      (sensor [(0x01, 0x40)] [], [])
     = Some ((0, Some errErrorDetected),
             ((sensor [(0x01, 0x40)] [])\<lparr>clock := 200000\<rparr>,
              [ReadClock, ReadByte 0x62 0x01, ReadByte 0x62 0x48]))"
proof -
  let ?ls = "NewLidar DefaultAddress"
  let ?d = "sensor [(0x01, 0x10), (0x8f, 0x01), (0x90, 0x2C)] []"
  let ?e = "sensor [(0x01, 0x40)] []"
  have h1: "waitAcquisitionReady (logged (sim 100000)) ?ls (?d, [])
              = Some (Some (HealthError 0),
                      (?d\<lparr>clock := 200000\<rparr>,
                       [ReadClock, ReadByte 0x62 0x01, ReadByte 0x62 0x48]))"
    by (simp add: wait_defs waitReadyStatus_loop.simps sim_defs const_defs)
  have h2: "waitAcquisitionReady (logged (sim 100000)) ?ls (?e, [])
              = Some (Some errErrorDetected,
                      (?e\<lparr>clock := 200000\<rparr>,
                       [ReadClock, ReadByte 0x62 0x01, ReadByte 0x62 0x48]))"
    by (simp add: wait_defs waitReadyStatus_loop.simps sim_defs const_defs)
  have rd: "bus_ReadWordFromReg (sim 100000) (address ?ls) 0x8f (?d\<lparr>clock := 200000\<rparr>)
              = ((300, None), ?d\<lparr>clock := 300000\<rparr>)"
    by (simp add: sim_defs const_defs)
  have f: "\<not> isHealthError errErrorDetected"
    by (simp add: errErrorDetected_def)
  show ?thesis
    using ReadDistance_soft_fail [OF h1] ReadDistance_soft_fail [OF h2] rd f
    by (simp add: NewLidar_def const_defs)
qed

subsection \<open>The scale of the velocity\<close>

text \<open>
  C8. In every \<open>ReadVelocity\<close> that gets past the wait without a fatal error and reads
  the control register: when the custom-interval bit of that control byte is set, the
  next bus call is the read of the interval register 0x45 and its value is the scale;
  when the bit is clear, the interval register is not read, the raw velocity register is
  read next, and the scale is the fixed byte 0xc8.
\<close>

theorem ReadVelocity_scale_source:
  assumes "waitAcquisitionReady (logged env) ls (w, l) = Some (healthError, (w1, l1))"
    and "healthError = None \<or> (\<exists>flags. healthError = Some (HealthError flags))"
    and "bus_ReadByteFromReg env (address ls) modeControlRegister w1 = ((control, None), w2)"
  shows "(control AND customAcquisitionInterval \<noteq> 0 \<longrightarrow>
           (\<forall>s w3 r w4.
              bus_ReadByteFromReg env (address ls) 0x45 w2 = ((s, None), w3)
              \<and> bus_ReadByteFromReg env (address ls) 0x09 w3 = ((r, None), w4) \<longrightarrow>
              ReadVelocity (logged env) ls (w, l) =
                Some ((scaleVelocity r s, healthError),
                      (w4, l1 @ [ReadByte (address ls) modeControlRegister,
                                 ReadByte (address ls) 0x45, ReadByte (address ls) 0x09]))))
       \<and> (control AND customAcquisitionInterval = 0 \<longrightarrow>
           (\<forall>r w4.
              bus_ReadByteFromReg env (address ls) 0x09 w2 = ((r, None), w4) \<longrightarrow>
              ReadVelocity (logged env) ls (w, l) =
                Some ((scaleVelocity r 0xc8, healthError),
                      (w4, l1 @ [ReadByte (address ls) modeControlRegister,
                                 ReadByte (address ls) 0x09]))))"
  using assms by (auto simp: ReadVelocity_def defaultIntervalValue_def)

theorem ReadVelocity_scale_source_witness:
  "ReadVelocity (logged (sim 100000)) (NewLidar DefaultAddress)
      (sensor [(0x01, 0x20), (0x04, 0x20), (0x45, 20), (0x09, 0x7F)] [], [])
     = Some ((127, None),
             ((sensor [(0x01, 0x20), (0x04, 0x20), (0x45, 20), (0x09, 0x7F)] [])
                \<lparr>clock := 400000\<rparr>,
              [ReadClock, ReadByte 0x62 0x01, ReadByte 0x62 0x04, ReadByte 0x62 0x45,
               ReadByte 0x62 0x09]))
   \<and> ReadVelocity (logged (sim 100000)) (NewLidar DefaultAddress)
      (sensor [(0x01, 0x20), (0x04, 0x80), (0x45, 20), (0x09, 0xFF)] [], [])
     = Some ((- 10, None),
             ((sensor [(0x01, 0x20), (0x04, 0x80), (0x45, 20), (0x09, 0xFF)] [])
                \<lparr>clock := 300000\<rparr>,
              [ReadClock, ReadByte 0x62 0x01, ReadByte 0x62 0x04, ReadByte 0x62 0x09]))"
proof -
  let ?ls = "NewLidar DefaultAddress"
  let ?d = "sensor [(0x01, 0x20), (0x04, 0x20), (0x45, 20), (0x09, 0x7F)] []"
  let ?e = "sensor [(0x01, 0x20), (0x04, 0x80), (0x45, 20), (0x09, 0xFF)] []"
  have d1: "waitAcquisitionReady (logged (sim 100000)) ?ls (?d, [])
              = Some (None, (?d\<lparr>clock := 100000\<rparr>, [ReadClock, ReadByte 0x62 0x01]))"
    by (simp add: wait_defs waitReadyStatus_loop.simps sim_defs const_defs)
  have d2: "bus_ReadByteFromReg (sim 100000) (address ?ls) modeControlRegister
              (?d\<lparr>clock := 100000\<rparr>) = ((0x20, None), ?d\<lparr>clock := 200000\<rparr>)"
    by (simp add: sim_defs const_defs)
  have d3: "bus_ReadByteFromReg (sim 100000) (address ?ls) 0x45 (?d\<lparr>clock := 200000\<rparr>)
              = ((20, None), ?d\<lparr>clock := 300000\<rparr>)"
       "bus_ReadByteFromReg (sim 100000) (address ?ls) 0x09 (?d\<lparr>clock := 300000\<rparr>)
              = ((0x7F, None), ?d\<lparr>clock := 400000\<rparr>)"
    by (simp_all add: sim_defs const_defs)
  have e1: "waitAcquisitionReady (logged (sim 100000)) ?ls (?e, [])
              = Some (None, (?e\<lparr>clock := 100000\<rparr>, [ReadClock, ReadByte 0x62 0x01]))"
    by (simp add: wait_defs waitReadyStatus_loop.simps sim_defs const_defs)
  have e2: "bus_ReadByteFromReg (sim 100000) (address ?ls) modeControlRegister
              (?e\<lparr>clock := 100000\<rparr>) = ((0x80, None), ?e\<lparr>clock := 200000\<rparr>)"
    by (simp add: sim_defs const_defs)
  have e3: "bus_ReadByteFromReg (sim 100000) (address ?ls) 0x09 (?e\<lparr>clock := 200000\<rparr>)
              = ((0xFF, None), ?e\<lparr>clock := 300000\<rparr>)"
    by (simp add: sim_defs const_defs)
  have c: "(0x20 :: byte) AND customAcquisitionInterval \<noteq> 0"
       "(0x80 :: byte) AND customAcquisitionInterval = 0"
    by (simp_all add: const_defs)
  have sd: "scaleVelocity 0x7F 20 = 127" "scaleVelocity 0xFF 0xc8 = - 10"
    by (simp_all add: scaleVelocity_def signed_divide_int_def)
  show ?thesis
    using ReadVelocity_scale_source [OF d1 _ d2] ReadVelocity_scale_source [OF e1 _ e2]
      d3 e3 c sd
    by (simp add: NewLidar_def const_defs)
qed

subsection \<open>Configuring the acquisition interval\<close>

lemma bit_velocityModeEnabled: "bit velocityModeEnabled n \<longleftrightarrow> n = 7"
  unfolding velocityModeEnabled_def
  by (auto simp only: bit_push_bit_iff bit_1_iff possible_bit_word len_num0 len_bit0 len_num1
      split: if_splits)

lemma bit_customAcquisitionInterval: "bit customAcquisitionInterval n \<longleftrightarrow> n = 5"
  unfolding customAcquisitionInterval_def
  by (auto simp only: bit_push_bit_iff bit_1_iff possible_bit_word len_num0 len_bit0 len_num1
      split: if_splits)

lemmas control_bit_simps = bit_and_iff bit_or_iff bit_not_iff bit_velocityModeEnabled
  bit_customAcquisitionInterval

lemma control_custom_cleared:
  "((if velocity then control OR velocityModeEnabled else control AND NOT velocityModeEnabled)
       AND NOT customAcquisitionInterval) AND customAcquisitionInterval = 0"
  by (rule bit_word_eqI) (simp add: control_bit_simps)

lemma control_velocity_bit:
  "((if velocity then control OR velocityModeEnabled else control AND NOT velocityModeEnabled)
       AND NOT customAcquisitionInterval) AND velocityModeEnabled =
   (if velocity then velocityModeEnabled else 0)"
  by (rule bit_word_eqI) (auto simp add: control_bit_simps)

lemma control_other_bits:
  "((if velocity then control OR velocityModeEnabled else control AND NOT velocityModeEnabled)
       AND NOT customAcquisitionInterval)
     AND NOT (velocityModeEnabled OR customAcquisitionInterval)
   = control AND NOT (velocityModeEnabled OR customAcquisitionInterval)"
  by (rule bit_word_eqI) (auto simp add: control_bit_simps)

text \<open>
  C7. For every call of \<open>setAcquisitionInterval\<close> with the default interval, on a
  transport that records its calls: the call reads the control register and then makes
  at most one write, to the control register; there is no write at all when the read
  fails. The byte written has the custom-interval bit clear, the velocity-mode bit equal
  to the \<open>velocity\<close> argument, and every other bit as it was read. No other register,
  the interval register 0x45 included, is written.
\<close>

theorem setAcquisitionInterval_default_frame:
  "(let rd = bus_ReadByteFromReg env (address ls) modeControlRegister w;
        control = fst (fst rd);
        value = (if velocity then control OR velocityModeEnabled
                 else control AND NOT velocityModeEnabled) AND NOT customAcquisitionInterval;
        wr = bus_WriteByteToReg env (address ls) modeControlRegister value (snd rd)
    in setAcquisitionInterval (logged env) ls DefaultAcquisitionInterval velocity (w, l) =
         (case snd (fst rd) of
            Some e \<Rightarrow> (Some e, (snd rd, l @ [ReadByte (address ls) modeControlRegister]))
          | None \<Rightarrow> (fst wr, (snd wr, l @ [ReadByte (address ls) modeControlRegister,
                                            WriteByte (address ls) modeControlRegister value])))
       \<and> filter isWrite
             (snd (snd (setAcquisitionInterval (logged env) ls DefaultAcquisitionInterval
                          velocity (w, l))))
           = filter isWrite l
             @ (case snd (fst rd) of Some e \<Rightarrow> []
                | None \<Rightarrow> [WriteByte (address ls) modeControlRegister value])
       \<and> value AND customAcquisitionInterval = 0
       \<and> value AND velocityModeEnabled = (if velocity then velocityModeEnabled else 0)
       \<and> value AND NOT (velocityModeEnabled OR customAcquisitionInterval)
           = control AND NOT (velocityModeEnabled OR customAcquisitionInterval))"
  unfolding Let_def
  by (intro conjI control_custom_cleared control_velocity_bit control_other_bits)
    (simp_all add: setAcquisitionInterval_def Let_def split: prod.splits option.splits)

theorem setAcquisitionInterval_default_frame_witness:
  "setAcquisitionInterval (logged (sim 100000)) (NewLidar DefaultAddress)
      DefaultAcquisitionInterval False (sensor [(0x04, 0xA3), (0x45, 0x14)] [], [])
     = (None,
        ((sensor [(0x04, 0xA3), (0x45, 0x14)] [])
           \<lparr>clock := 200000,
            regs := (regs (sensor [(0x04, 0xA3), (0x45, 0x14)] []))(0x04 := 0x03)\<rparr>,
         [ReadByte 0x62 0x04, WriteByte 0x62 0x04 0x03]))
   \<and> setAcquisitionInterval (logged (sim 100000)) (NewLidar DefaultAddress)
      DefaultAcquisitionInterval True (sensor [(0x04, 0x23)] [0x04], [])
     = (Some errNak, ((sensor [(0x04, 0x23)] [0x04])\<lparr>clock := 100000\<rparr>,
                      [ReadByte 0x62 0x04]))"
  using setAcquisitionInterval_default_frame
      [of "sim 100000" "NewLidar DefaultAddress" "sensor [(0x04, 0xA3), (0x45, 0x14)] []"
        False "[]"]
    setAcquisitionInterval_default_frame
      [of "sim 100000" "NewLidar DefaultAddress" "sensor [(0x04, 0x23)] [0x04]" True "[]"]
  by (simp add: Let_def sim_defs const_defs)



text \<open>Beyond that the product wraps, and the range check is made on the wrapped value:
  an interval of 50 ms less \<open>2^63\<close> ns, whose exact quotient is far below the minimum,
  translates to 100, and the driver writes 100 to the interval register and sets the
  custom-interval bit, with no error.\<close>

lemma translatedInterval_wraps:
  "translatedInterval (- (2 ^ 63) + 50000000) = 100"
  by (simp add: translatedInterval_def int64_def signed_take_bit_eq_take_bit_shift
      take_bit_eq_mod signed_divide_int_def)

lemma setAcquisitionInterval_wrapped_interval_is_written:
  "((- (2 ^ 63) + 50000000) * 2) sdiv 1000000 < minIntervalValue
   \<and> setAcquisitionInterval (logged (sim 100000)) (NewLidar DefaultAddress)
        (- (2 ^ 63) + 50000000) False (sensor [(0x04, 0x03)] [], [])
      = (None,
         ((sensor [(0x04, 0x03)] [])
            \<lparr>clock := 300000,
             regs := (regs (sensor [(0x04, 0x03)] []))(0x45 := 100, 0x04 := 0x23)\<rparr>,
          [ReadByte 0x62 0x04, WriteByte 0x62 0x45 100, WriteByte 0x62 0x04 0x23]))"
proof -
  have d: "- (2 ^ 63) + 50000000 \<noteq> DefaultAcquisitionInterval"
    by (simp add: DefaultAcquisitionInterval_def defaultIntervalValue_def drop_bit_eq_div
        const_defs)
  have q: "((- (2 ^ 63) + 50000000) * 2) sdiv 1000000 < minIntervalValue"
    by (simp add: signed_divide_int_def minIntervalValue_def)
  have t: "translatedInterval (- 9223372036804775808) = 100"
    using translatedInterval_wraps by simp
  show ?thesis
    using d q
    by (simp add: setAcquisitionInterval_def t minIntervalValue_def
        maxIntervalValue_def sim_defs const_defs)
qed




subsection \<open>Encoding and decoding an interval\<close>

lemma sdiv_nonneg: "0 \<le> (x::int) \<Longrightarrow> 0 < y \<Longrightarrow> x sdiv y = x div y"
  by (cases "x = 0") (simp_all add: signed_divide_int_def)

lemma sdiv_pos_nonneg:
  assumes "0 < (y::int)" and "0 < x sdiv y"
  shows "0 \<le> x"
proof (rule ccontr)
  assume "\<not> 0 \<le> x"
  then have "x sdiv y = - (\<bar>x\<bar> div y)"
    using assms(1) by (simp add: signed_divide_int_def)
  moreover have "0 \<le> \<bar>x\<bar> div y"
    using assms(1) by (simp add: pos_imp_zdiv_nonneg_iff)
  ultimately show False
    using assms(2) by simp
qed

text \<open>The exported constants apply \<open>(raw >> 1) * time.Millisecond\<close> to the three
  register values. That is the decoded value for an even register value, so for the
  default and the minimum; for the odd maximum 0xff it is half a millisecond less.\<close>

lemma exported_intervals_decoded:
  "DefaultAcquisitionInterval = decodedInterval defaultIntervalValue"
  "MinAcquisitionInterval = decodedInterval minIntervalValue"
  "MaxAcquisitionInterval = decodedInterval maxIntervalValue - registerUnit"
  by (simp_all add: DefaultAcquisitionInterval_def MinAcquisitionInterval_def
      MaxAcquisitionInterval_def decodedInterval_def registerUnit_def Millisecond_def
      defaultIntervalValue_def minIntervalValue_def maxIntervalValue_def drop_bit_eq_div)

lemma shifted_milliseconds_even:
  "even raw \<Longrightarrow> drop_bit 1 raw * Millisecond = decodedInterval raw"
  by (auto simp: decodedInterval_def registerUnit_def Millisecond_def drop_bit_eq_div
      elim!: evenE)

text \<open>
  C6. For every duration \<open>d\<close> with
  \<open>minIntervalValue \<le> d * 2 / 1ms \<le> maxIntervalValue\<close>: the driver's translation
  \<open>raw = d * 2 / 1000000\<close> is that quotient (the product does not wrap), it fits the byte
  written to the interval register, and decoding it as \<open>raw\<close> half milliseconds
  recovers \<open>d\<close> within one register unit: \<open>0 \<le> d - decoded < 0.5 ms\<close>.
\<close>

theorem interval_roundtrip:
  assumes "minIntervalValue \<le> (interval * 2) sdiv 1000000"
    and "(interval * 2) sdiv 1000000 \<le> maxIntervalValue"
  shows "translatedInterval interval = (interval * 2) sdiv 1000000
       \<and> uint (word_of_int (translatedInterval interval) :: byte) = translatedInterval interval
       \<and> 0 \<le> interval - decodedInterval (translatedInterval interval)
       \<and> interval - decodedInterval (translatedInterval interval) < registerUnit
       \<and> \<bar>interval - decodedInterval (translatedInterval interval)\<bar> \<le> registerUnit"
proof -
  have pos: "0 < (interval * 2) sdiv 1000000"
    using assms(1) by (simp add: minIntervalValue_def)
  have nn: "0 \<le> interval * 2"
    by (rule sdiv_pos_nonneg [OF _ pos]) simp
  define q where "q = (interval * 2) div 1000000"
  have sq: "(interval * 2) sdiv 1000000 = q"
    using nn by (simp add: sdiv_nonneg q_def)
  have q: "2 \<le> q" "q \<le> 255"
    using assms by (simp_all add: sq minIntervalValue_def maxIntervalValue_def)
  have lo: "2000000 \<le> interval * 2" and hi: "interval * 2 < 256000000"
    using q unfolding q_def by linarith+
  have t: "translatedInterval interval = q"
    using lo hi by (simp add: translatedInterval_def int64_id sdiv_nonneg q_def)
  have r: "1000000 * q \<le> interval * 2" "interval * 2 < 1000000 * q + 1000000"
    unfolding q_def by linarith+
  have d: "decodedInterval q = q * 500000"
    by (simp add: decodedInterval_def registerUnit_def)
  have u: "uint (word_of_int q :: byte) = q"
    using q by (simp add: uint_word_of_int take_bit_int_eq_self)
  show ?thesis
    unfolding t sq d registerUnit_def using r u by simp
qed

theorem interval_roundtrip_witness:
  "translatedInterval 1999999 = 3
   \<and> decodedInterval (translatedInterval 1999999) = 1500000
   \<and> 1999999 - decodedInterval (translatedInterval 1999999) < registerUnit
   \<and> translatedInterval MaxAcquisitionInterval = 254
   \<and> decodedInterval (translatedInterval MaxAcquisitionInterval) = MaxAcquisitionInterval"
proof -
  have a: "minIntervalValue \<le> (1999999 * 2) sdiv 1000000"
       "minIntervalValue \<le> (MaxAcquisitionInterval * 2) sdiv 1000000"
    by (simp_all add: minIntervalValue_def signed_divide_int_def MaxAcquisitionInterval_def
        maxIntervalValue_def Millisecond_def drop_bit_eq_div)
  have b: "(1999999 * 2) sdiv 1000000 \<le> maxIntervalValue"
       "(MaxAcquisitionInterval * 2) sdiv 1000000 \<le> maxIntervalValue"
    by (simp_all add: maxIntervalValue_def signed_divide_int_def MaxAcquisitionInterval_def
        Millisecond_def drop_bit_eq_div)
  have c: "(1999999 * 2) sdiv 1000000 = (3::int)"
       "(MaxAcquisitionInterval * 2) sdiv 1000000 = 254"
       "MaxAcquisitionInterval = 127000000"
    by (simp_all add: signed_divide_int_def MaxAcquisitionInterval_def maxIntervalValue_def
        Millisecond_def drop_bit_eq_div)
  have d: "decodedInterval 3 = 1500000" "decodedInterval 254 = 127000000"
    by (simp_all add: decodedInterval_def registerUnit_def)
  show ?thesis
    using interval_roundtrip [OF a(1) b(1)] interval_roundtrip [OF a(2) b(2)]
    by (simp add: c d registerUnit_def)
qed

subsection \<open>The retry loop of GetDistance\<close>

text \<open>Termination of the two loops, for a clock that advances with every bus
  transaction and a \<open>WaitTimeout\<close> that is an \<open>int64\<close> value. The measure is the time
  left until \<open>startedAt + WaitTimeout\<close>.\<close>

lemma Since_below_timeout:
  assumes "T \<le> maxDuration" and "max minDuration (min maxDuration x) < T"
  shows "x < T"
  using assms by (simp add: max_def min_def split: if_splits)

lemma time_Since_ticking:
  assumes "ticking env clk" and "time_Since env t w = (elapsed, w')"
  shows "elapsed = max minDuration (min maxDuration (clk w - t)) \<and> clk w \<le> clk w'"
proof -
  have "fst (time_Now env w) = clk w" "clk w \<le> clk (snd (time_Now env w))"
    using assms(1) by (simp_all add: ticking_def)
  then show ?thesis
    using assms(2) by (auto simp: time_Since_def split: prod.splits)
qed

lemma GetStatus_ticking:
  assumes "ticking env clk" and "GetStatus env ls w = (r, w')"
  shows "clk w < clk w'"
proof -
  have "clk w < clk (snd (bus_ReadByteFromReg env (address ls) 0x01 w))"
    using assms(1) unfolding ticking_def by blast
  then show ?thesis
    using assms(2) by (simp add: GetStatus_def)
qed

lemma waitReadyStatus_loop_terminates:
  assumes tick: "ticking env clk" and T: "WaitTimeout ls \<le> maxDuration"
  shows "\<exists>r w'. waitReadyStatus_loop env ls t b w = Some (r, w') \<and> clk w < clk w'"
proof (induction "nat (t + WaitTimeout ls - clk w)" arbitrary: b w rule: less_induct)
  case less
  obtain status err w1 where g: "GetStatus env ls w = ((status, err), w1)"
    by (metis surj_pair)
  obtain elapsed w2 where s: "time_Since env t w1 = (elapsed, w2)"
    by (metis surj_pair)
  have c1: "clk w < clk w1"
    using GetStatus_ticking [OF tick g] .
  have c2: "elapsed = max minDuration (min maxDuration (clk w1 - t))" "clk w1 \<le> clk w2"
    using time_Since_ticking [OF tick s] by simp_all
  show ?case
  proof (cases "err = None \<and> status AND Busy = 0")
    case True
    then have "waitReadyStatus_loop env ls t b w = Some ((status, err), w1)"
      by (subst waitReadyStatus_loop.simps) (simp add: g)
    then show ?thesis
      using c1 by blast
  next
    case notready: False
    show ?thesis
    proof (cases "WaitTimeout ls \<le> elapsed")
      case True
      then have "waitReadyStatus_loop env ls t b w =
                   Some ((status, if err = None then Some errTimedOut else err), w2)"
        using notready by (subst waitReadyStatus_loop.simps) (simp add: g s)
      then show ?thesis
        using c1 c2 by force
    next
      case False
      let ?w3 = "time_Sleep env b w2"
      have c3: "clk w2 \<le> clk ?w3"
        using tick by (simp add: ticking_def)
      have "max minDuration (min maxDuration (clk w1 - t)) < WaitTimeout ls"
        using False unfolding c2(1) not_le .
      then have "clk w1 - t < WaitTimeout ls"
        by (rule Since_below_timeout [OF T])
      then have "nat (t + WaitTimeout ls - clk ?w3) < nat (t + WaitTimeout ls - clk w)"
        using c1 c2(2) c3 by linarith
      from less [OF this]
      obtain r w' where r: "waitReadyStatus_loop env ls t (int64 (b * 2)) ?w3 = Some (r, w')"
        and c4: "clk ?w3 < clk w'"
        by blast
      have "waitReadyStatus_loop env ls t b w = Some (r, w')"
        using notready False r by (subst waitReadyStatus_loop.simps) (auto simp: g s)
      then show ?thesis
        using c1 c2(2) c3 c4 by force
    qed
  qed
qed

lemma waitReadyStatus_terminates:
  assumes "ticking env clk" and "WaitTimeout ls \<le> maxDuration"
  shows "\<exists>r w'. waitReadyStatus env ls w = Some (r, w') \<and> clk w < clk w'"
proof -
  obtain t w0 where n: "time_Now env w = (t, w0)"
    by (metis surj_pair)
  have "clk w \<le> clk (snd (time_Now env w))"
    using assms(1) by (simp add: ticking_def)
  then have c: "clk w \<le> clk w0"
    by (simp add: n)
  obtain r w' where "waitReadyStatus_loop env ls t Millisecond w0 = Some (r, w')" "clk w0 < clk w'"
    using waitReadyStatus_loop_terminates [OF assms] by blast
  then show ?thesis
    using c by (force simp: waitReadyStatus_def n)
qed

lemma classifyStatus_ticking:
  assumes "ticking env clk" and "classifyStatus env ls status w = (e, w')"
  shows "clk w \<le> clk w'"
proof -
  have "clk w < clk (snd (bus_ReadByteFromReg env (address ls) 0x48 w))"
    using assms(1) unfolding ticking_def by blast
  then show ?thesis
    using assms(2) by (auto simp: classifyStatus_def Let_def split: if_splits prod.splits)
qed

lemma waitAcquisitionReady_terminates:
  assumes "ticking env clk" and "WaitTimeout ls \<le> maxDuration"
  shows "\<exists>e w'. waitAcquisitionReady env ls w = Some (e, w') \<and> clk w < clk w'"
proof -
  obtain status err w1 where r: "waitReadyStatus env ls w = Some ((status, err), w1)"
    and c: "clk w < clk w1"
    using waitReadyStatus_terminates [OF assms, of w] by force
  obtain e w2 where k: "classifyStatus env ls status w1 = (e, w2)"
    by (metis surj_pair)
  have "clk w1 \<le> clk w2"
    using classifyStatus_ticking [OF assms(1) k] .
  then show ?thesis
    using c by (cases "err = None") (force simp: waitAcquisitionReady_def r k)+
qed

lemma Acquire_terminates:
  assumes "ticking env clk" and "WaitTimeout ls \<le> maxDuration"
  shows "\<exists>e w'. Acquire env ls stabilize w = Some (e, w') \<and> clk w < clk w'"
proof -
  obtain status err w1 where r: "waitReadyStatus env ls w = Some ((status, err), w1)"
    and c: "clk w < clk w1"
    using waitReadyStatus_terminates [OF assms, of w] by force
  let ?wr = "bus_WriteByteToReg env (address ls) 0x00 (if stabilize then 0x04 else 0x03) w1"
  have "clk w1 < clk (snd ?wr)"
    using assms(1) unfolding ticking_def by blast
  then have "clk w < clk (snd ?wr)"
    using c by simp
  then show ?thesis
    using c by (cases err; cases ?wr) (auto simp: Acquire_def waitReadyForCommand_def r)
qed

lemma ReadDistance_terminates:
  assumes "ticking env clk" and "WaitTimeout ls \<le> maxDuration"
  shows "\<exists>r w'. ReadDistance env ls w = Some (r, w') \<and> clk w < clk w'"
proof -
  obtain e w1 where r: "waitAcquisitionReady env ls w = Some (e, w1)" and c: "clk w < clk w1"
    using waitAcquisitionReady_terminates [OF assms, of w] by blast
  let ?rd = "bus_ReadWordFromReg env (address ls) 0x8f w1"
  have "clk w1 < clk (snd ?rd)"
    using assms(1) unfolding ticking_def by blast
  then have "clk w < clk (snd ?rd)"
    using c by simp
  then show ?thesis
    using c by (cases ?rd) (auto simp: ReadDistance_def r split: option.splits)
qed

lemma GetDistance_attempt_terminates:
  assumes "ticking env clk" and "WaitTimeout ls \<le> maxDuration"
  shows "\<exists>r w'. GetDistance_attempt env ls v0 w = Some (r, w') \<and> clk w < clk w'"
proof -
  obtain e w1 where a: "Acquire env ls True w = Some (e, w1)" and c: "clk w < clk w1"
    using Acquire_terminates [OF assms, of True w] by blast
  show ?thesis
  proof (cases e)
    case None
    obtain r w' where "ReadDistance env ls w1 = Some (r, w')" "clk w1 < clk w'"
      using ReadDistance_terminates [OF assms, of w1] by blast
    then show ?thesis
      using c None by (force simp: GetDistance_attempt_def a)
  next
    case (Some err)
    then show ?thesis
      using c by (simp add: GetDistance_attempt_def a)
  qed
qed

lemma GetDistance_loop_terminates:
  assumes tick: "ticking env clk" and T: "WaitTimeout ls \<le> maxDuration"
  shows "\<exists>r. GetDistance_loop env ls t v0 w = Some r"
proof (induction "nat (t + WaitTimeout ls - clk w)" arbitrary: v0 w rule: less_induct)
  case less
  obtain v err w2 where a: "GetDistance_attempt env ls v0 w = Some ((v, err), w2)"
    and c1: "clk w < clk w2"
    using GetDistance_attempt_terminates [OF tick T, of v0 w] by force
  obtain elapsed w3 where s: "time_Since env t w2 = (elapsed, w3)"
    by (metis surj_pair)
  have c2: "elapsed = max minDuration (min maxDuration (clk w2 - t))" "clk w2 \<le> clk w3"
    using time_Since_ticking [OF tick s] by simp_all
  show ?case
  proof (cases "err = None \<or> WaitTimeout ls \<le> elapsed")
    case True
    then show ?thesis
      by (subst GetDistance_loop.simps) (auto simp: a s)
  next
    case False
    then have "max minDuration (min maxDuration (clk w2 - t)) < WaitTimeout ls"
      unfolding c2(1) by (simp only: not_le de_Morgan_disj)
    then have "clk w2 - t < WaitTimeout ls"
      by (rule Since_below_timeout [OF T])
    then have "nat (t + WaitTimeout ls - clk w3) < nat (t + WaitTimeout ls - clk w)"
      using c1 c2(2) by linarith
    from less [OF this] obtain r where r: "GetDistance_loop env ls t v w3 = Some r"
      by blast
    have "GetDistance_loop env ls t v0 w = GetDistance_loop env ls t v w3"
      using False by (subst GetDistance_loop.simps) (auto simp: a s)
    then show ?thesis
      using r by simp
  qed
qed

lemma GetDistance_terminates_aux:
  assumes "ticking env clk" and "WaitTimeout ls \<le> maxDuration"
  shows "\<exists>r. GetDistance env ls w = Some r"
proof -
  obtain t w0 where n: "time_Now env w = (t, w0)"
    by (metis surj_pair)
  obtain e w1 where c: "setAcquisitionCount env ls 0 w0 = (e, w1)"
    by (metis surj_pair)
  obtain r where "GetDistance_loop env ls t 0 w1 = Some r"
    using GetDistance_loop_terminates [OF assms] by blast
  then show ?thesis
    by (cases e) (simp_all add: GetDistance_def n c)
qed

lemma ticking_sim: "0 < latency \<Longrightarrow> ticking (sim latency) clock"
  by (simp add: ticking_def sim_def)

text \<open>
  C9, as stated, fails on the bound: against a device that stays busy, with the default
  \<open>WaitTimeout\<close> of 2 s and a bus transaction of 100 \<mu>s, the one call of \<open>Acquire\<close>
  polls with sleeps of 1, 2, ..., 1024 ms and times out after 2.0482 s, and
  \<open>GetDistance\<close> returns 2.0483 s after it started, later than \<open>WaitTimeout\<close>.
\<close>

theorem GetDistance_overruns_WaitTimeout:
  "GetDistance (sim 100000) (NewLidar DefaultAddress) (sensor [(0x01, Busy)] [])
     = Some ((0, Some errTimedOut), (sensor [(0x01, Busy)] [])\<lparr>clock := 2048300000\<rparr>)
   \<and> WaitTimeout (NewLidar DefaultAddress) < 2048300000 - clock (sensor [(0x01, Busy)] [])"
  by (simp add: GetDistance_def setAcquisitionCount_def GetDistance_loop.simps
      GetDistance_attempt_def Acquire_def waitReadyForCommand_def waitReadyStatus_def
      waitReadyStatus_loop.simps sim_defs const_defs int64_id fun_eq_iff)

text \<open>
  C9, amended. Whenever the clock advances with every bus transaction (and
  \<open>WaitTimeout\<close> is an \<open>int64\<close> value) \<open>GetDistance\<close> returns, even when every
  \<open>Acquire\<close> and \<open>ReadDistance\<close> fails. It first writes the acquisition count 0 and
  returns the error of that write if it fails. Then it repeats \<open>Acquire(true)\<close> followed,
  when that succeeds, by \<open>ReadDistance()\<close>: an iteration in which both succeed returns
  the distance with no error; after an iteration that ends with an error it reads the
  elapsed time and, when that has reached \<open>WaitTimeout\<close>, returns that last error, and
  otherwise starts the next iteration. The elapsed time is compared only between
  iterations, so the call may return later than \<open>WaitTimeout\<close> after its start.
\<close>

theorem GetDistance_terminates:
  assumes "ticking env clk" and "WaitTimeout ls \<le> maxDuration"
  shows "(\<exists>r. GetDistance env ls w = Some r)
       \<and> (\<forall>e w1. setAcquisitionCount env ls 0 (snd (time_Now env w)) = (Some e, w1) \<longrightarrow>
            GetDistance env ls w = Some ((0, Some e), w1))
       \<and> (\<forall>w1. setAcquisitionCount env ls 0 (snd (time_Now env w)) = (None, w1) \<longrightarrow>
            GetDistance env ls w = GetDistance_loop env ls (fst (time_Now env w)) 0 w1)
       \<and> (\<forall>t v0 u u1 v u'.
            Acquire env ls True u = Some (None, u1)
            \<and> ReadDistance env ls u1 = Some ((v, None), u') \<longrightarrow>
            GetDistance_loop env ls t v0 u = Some ((v, None), u'))
       \<and> (\<forall>t v0 u v e u'.
            GetDistance_attempt env ls v0 u = Some ((v, Some e), u')
            \<and> WaitTimeout ls \<le> fst (time_Since env t u') \<longrightarrow>
            GetDistance_loop env ls t v0 u = Some ((v, Some e), snd (time_Since env t u')))
       \<and> (\<forall>t v0 u v e u'.
            GetDistance_attempt env ls v0 u = Some ((v, Some e), u')
            \<and> fst (time_Since env t u') < WaitTimeout ls \<longrightarrow>
            GetDistance_loop env ls t v0 u =
              GetDistance_loop env ls t v (snd (time_Since env t u')))"
proof (intro conjI allI impI)
  show "\<exists>r. GetDistance env ls w = Some r"
    by (rule GetDistance_terminates_aux [OF assms])
next
  fix e w1
  assume "setAcquisitionCount env ls 0 (snd (time_Now env w)) = (Some e, w1)"
  then show "GetDistance env ls w = Some ((0, Some e), w1)"
    by (auto simp: GetDistance_def split: prod.splits)
next
  fix w1
  assume "setAcquisitionCount env ls 0 (snd (time_Now env w)) = (None, w1)"
  then show "GetDistance env ls w = GetDistance_loop env ls (fst (time_Now env w)) 0 w1"
    by (auto simp: GetDistance_def split: prod.splits)
next
  fix t v0 u u1 v u'
  assume "Acquire env ls True u = Some (None, u1)
          \<and> ReadDistance env ls u1 = Some ((v, None), u')"
  then show "GetDistance_loop env ls t v0 u = Some ((v, None), u')"
    by (subst GetDistance_loop.simps) (simp add: GetDistance_attempt_def)
next
  fix t v0 u v e u'
  assume "GetDistance_attempt env ls v0 u = Some ((v, Some e), u')
          \<and> WaitTimeout ls \<le> fst (time_Since env t u')"
  then show "GetDistance_loop env ls t v0 u = Some ((v, Some e), snd (time_Since env t u'))"
    by (subst GetDistance_loop.simps) (auto split: prod.splits)
next
  fix t v0 u v e u'
  assume "GetDistance_attempt env ls v0 u = Some ((v, Some e), u')
          \<and> fst (time_Since env t u') < WaitTimeout ls"
  then show "GetDistance_loop env ls t v0 u =
               GetDistance_loop env ls t v (snd (time_Since env t u'))"
    by (subst GetDistance_loop.simps) (auto split: prod.splits)
qed

theorem GetDistance_terminates_witness:
  "ticking (sim 100000) clock
   \<and> WaitTimeout (NewLidar DefaultAddress) \<le> maxDuration
   \<and> (\<exists>r. GetDistance (sim 100000) (NewLidar DefaultAddress) (sensor [(0x01, Busy)] [])
            = Some r)
   \<and> GetDistance_loop (sim 100000) (NewLidar DefaultAddress) 0 0
        (sensor [(0x01, Healthy), (0x8f, 0x01), (0x90, 0x2C)] [])
      = Some ((300, None),
              (sensor [(0x01, Healthy), (0x8f, 0x01), (0x90, 0x2C)] [])
                \<lparr>clock := 400000,
                 regs := (regs (sensor [(0x01, Healthy), (0x8f, 0x01), (0x90, 0x2C)] []))
                           (0x00 := 0x04)\<rparr>)"
proof -
  let ?ls = "NewLidar DefaultAddress"
  let ?d = "sensor [(0x01, Healthy), (0x8f, 0x01), (0x90, 0x2C)] []"
  let ?d1 = "?d\<lparr>clock := 200000, regs := (regs ?d)(0x00 := 0x04)\<rparr>"
  let ?d2 = "?d\<lparr>clock := 400000, regs := (regs ?d)(0x00 := 0x04)\<rparr>"
  have a: "ticking (sim 100000) clock"
    by (rule ticking_sim) simp
  have b: "WaitTimeout ?ls \<le> maxDuration"
    by (simp add: NewLidar_def const_defs)
  have acq: "Acquire (sim 100000) ?ls True ?d = Some (None, ?d1)"
    by (simp add: Acquire_def wait_defs waitReadyStatus_loop.simps sim_defs const_defs)
  have rd: "ReadDistance (sim 100000) ?ls ?d1 = Some ((300, None), ?d2)"
    by (simp add: ReadDistance_def wait_defs waitReadyStatus_loop.simps sim_defs const_defs)
  show ?thesis
    using GetDistance_terminates [OF a b, of "sensor [(0x01, Busy)] []"] acq rd a b
    by blast
qed

end
